theory Spec2Isabelle
  imports Main "HOL-Library.AList"
begin

section \<open>The macro utility of setup.py\<close>

text \<open>
  The build script keeps the preprocessor macros of the extension in two classes:
  \<open>Macro\<close>, one macro with its name, optional definition and undefine flag, and
  \<open>Macros\<close>, a dict from macro names to stored value strings. This theory embeds both
  classes and the helpers they call.

  Python values are modelled by the types the annotations give them: \<open>MaybeStr\<close> is
  \<open>string option\<close> (\<open>None\<close> is Python's None), a str is a \<open>string\<close> whose characters
  are the code points below 256, a bool is \<open>bool\<close>. A raised exception is the left
  summand of a result.
\<close>

subsection \<open>Python built-ins used by the script\<close>

datatype error = ValueError string

text \<open>
  \<open>str.strip()\<close> and \<open>str.lstrip()\<close> remove the characters for which \<open>str.isspace\<close>
  holds. Below 256 these are the code points 9 to 13, 28 to 32, 133 and 160.
\<close>

definition py_isspace :: "char \<Rightarrow> bool" where
  "py_isspace c \<longleftrightarrow> (of_char c :: nat) \<in> {9, 10, 11, 12, 13, 28, 29, 30, 31, 32, 133, 160}"

definition py_lstrip :: "string \<Rightarrow> string" where
  "py_lstrip s = dropWhile py_isspace s"

definition py_strip :: "string \<Rightarrow> string" where
  "py_strip s = rev (dropWhile py_isspace (rev (dropWhile py_isspace s)))"

text \<open>\<open>sep.join(parts)\<close>.\<close>

fun py_join :: "string \<Rightarrow> string list \<Rightarrow> string" where
  "py_join sep [] = []"
| "py_join sep [x] = x"
| "py_join sep (x # y # ys) = x @ sep @ py_join sep (y # ys)"

text \<open>
  \<open>int(s, base=10)\<close> on a str: surrounding whitespace is dropped (the code points 9 to 13,
  32, 133 and 160: the separators 28 to 31 are not accepted here), one sign may follow,
  and the rest must be groups of decimal digits separated by single underscores. Leading
  zeros are allowed when the base is given. A literal of more than 4300 digits is refused
  (the default digit limit of the interpreter). Every refusal is a ValueError, which is
  \<open>None\<close> here.
\<close>

definition int_space :: "char \<Rightarrow> bool" where
  "int_space c \<longleftrightarrow> (of_char c :: nat) \<in> {9, 10, 11, 12, 13, 32, 133, 160}"

definition is_digit :: "char \<Rightarrow> bool" where
  "is_digit c \<longleftrightarrow> 48 \<le> (of_char c :: nat) \<and> (of_char c :: nat) \<le> 57"

definition digit_value :: "char \<Rightarrow> nat" where
  "digit_value c = of_char c - 48"

fun digit_groups :: "string \<Rightarrow> bool" where
  "digit_groups [] = False"
| "digit_groups [c] = is_digit c"
| "digit_groups (c # d # cs) =
     (is_digit c \<and> (if d = CHR ''_'' then digit_groups cs else digit_groups (d # cs)))"

definition max_str_digits :: nat where
  "max_str_digits = 4300"

definition py_nat :: "string \<Rightarrow> nat option" where
  "py_nat body =
     (let ds = filter is_digit body
      in if digit_groups body \<and> length ds \<le> max_str_digits
         then Some (foldl (\<lambda>acc c. 10 * acc + digit_value c) 0 ds)
         else None)"

definition py_int :: "string \<Rightarrow> int option" where
  "py_int s =
     (case rev (dropWhile int_space (rev (dropWhile int_space s))) of
        [] \<Rightarrow> None
      | c # cs \<Rightarrow>
          if c = CHR ''-'' then map_option (\<lambda>n. - int n) (py_nat cs)
          else if c = CHR ''+'' then map_option int (py_nat cs)
          else map_option int (py_nat (c # cs)))"

text \<open>
  \<open>x or y\<close> on \<open>MaybeStr\<close> operands: the left operand when it is truthy (a non-empty
  str), else the right one.
\<close>

definition py_or :: "string option \<Rightarrow> string option \<Rightarrow> string option" where
  "py_or x y = (case x of None \<Rightarrow> y | Some s \<Rightarrow> if s = [] then y else x)"

subsection \<open>Module constants and string helpers\<close>

definition TOKEN :: string where
  "TOKEN = '' -''"

text \<open>
  \<open>u8str(source)\<close> is \<open>type(source) is str and source or u8bytes(source).decode('UTF-8')\<close>.
  A non-empty str is returned as it is. The empty str is falsy, so it takes the right
  operand: \<open>u8bytes('')\<close> is \<open>b''\<close>, which decodes to the empty str. None takes the right
  operand too: \<open>u8bytes(None)\<close> is \<open>b'None'\<close>.
\<close>

definition u8str :: "string option \<Rightarrow> string" where
  "u8str source =
     (case source of
        Some s \<Rightarrow> if s \<noteq> [] then s else []
      | None \<Rightarrow> ''None'')"

subsection \<open>class Macro\<close>

text \<open>
  The slots \<open>name\<close>, \<open>definition\<close> and \<open>undefine\<close>; the fields carry a prefix because
  \<open>definition\<close> is a keyword of the theory language.
\<close>

record Macro =
  macro_name :: string
  macro_definition :: "string option"
  macro_undefine :: bool

type_synonym MacroTuple = "string \<times> string"

definition STRING_ZERO :: string where
  "STRING_ZERO = ''0''"

definition STRING_ONE :: string where
  "STRING_ONE = ''1''"

text \<open>
  \<open>Macro.is_string_value(putative, value)\<close>: None is not a string; a string that
  \<open>int\<close> refuses gives False; otherwise \<open>0 + int(putative) == value\<close>.
\<close>

definition is_string_value :: "string option \<Rightarrow> int \<Rightarrow> bool" where
  "is_string_value putative v =
     (case putative of
        None \<Rightarrow> False
      | Some s \<Rightarrow> (case py_int s of None \<Rightarrow> False | Some i \<Rightarrow> 0 + i = v))"

text \<open>
  \<open>Macro.__init__(name, definition, undefine)\<close>. \<open>not name\<close> holds for None and for the
  empty str. \<open>(not string_something or None) and definition\<close> is None when
  \<open>string_something\<close> holds and \<open>definition\<close> otherwise.
\<close>

definition Macro_init :: "string option \<Rightarrow> string option \<Rightarrow> bool \<Rightarrow> error + Macro" where
  "Macro_init name defn undef =
     (case name of
        None \<Rightarrow> Inl (ValueError ''Macro() requires a valid name'')
      | Some n \<Rightarrow>
          if n = [] then Inl (ValueError ''Macro() requires a valid name'')
          else
            let string_zero = is_string_value defn 0;
                string_one = is_string_value defn 1;
                string_something = string_zero \<or> string_one
            in Inr \<lparr>macro_name = n,
                    macro_definition = (if string_something then None else defn),
                    macro_undefine = (string_zero \<or> undef)\<rparr>)"

definition Macro_to_string :: "Macro \<Rightarrow> string" where
  "Macro_to_string self =
     (if macro_undefine self then ''U'' @ u8str (Some (macro_name self))
      else if macro_definition self \<noteq> None
        then ''D'' @ u8str (Some (macro_name self)) @ ''='' @ u8str (macro_definition self)
      else ''D'' @ u8str (Some (macro_name self)))"

definition Macro_to_tuple :: "Macro \<Rightarrow> MacroTuple" where
  "Macro_to_tuple self =
     (if macro_undefine self then (u8str (Some (macro_name self)), STRING_ZERO)
      else if macro_definition self \<noteq> None
        then (u8str (Some (macro_name self)), u8str (macro_definition self))
      else (u8str (Some (macro_name self)), STRING_ONE))"

definition Macro_bool :: "Macro \<Rightarrow> bool" where
  "Macro_bool self \<longleftrightarrow> \<not> macro_undefine self"

subsection \<open>class Macros\<close>

text \<open>
  A dict keeps its keys in insertion order, and assigning to a key that is present keeps
  the key's place: an association list with \<open>AList.update\<close> and \<open>AList.delete\<close>. The
  methods mutate \<open>self\<close>; the model returns the new dict beside the result.
\<close>

type_synonym Macros = "(string \<times> string option) list"

definition Macros_add :: "Macros \<Rightarrow> Macro \<Rightarrow> Macros \<times> Macro" where
  "Macros_add self macro =
     (let name = macro_name macro
      in if Macro_bool macro
         then (AList.update name (py_or (macro_definition macro) (Some STRING_ONE)) self, macro)
         else (AList.update name (Some STRING_ZERO) self, macro))"

definition Macros_define ::
  "Macros \<Rightarrow> string option \<Rightarrow> string option \<Rightarrow> bool \<Rightarrow> error + Macros \<times> Macro" where
  "Macros_define self name defn undef =
     (case Macro_init name defn undef of
        Inl e \<Rightarrow> Inl e
      | Inr macro \<Rightarrow> Inr (Macros_add self macro))"

text \<open>\<open>undefine(name, **kwargs)\<close>: the keyword arguments are received and not read.\<close>

definition Macros_undefine ::
  "Macros \<Rightarrow> string option \<Rightarrow> (string \<times> string option) list \<Rightarrow> error + Macros \<times> Macro" where
  "Macros_undefine self name kwargs =
     (case Macro_init name None True of
        Inl e \<Rightarrow> Inl e
      | Inr macro \<Rightarrow> Inr (Macros_add self macro))"

definition Macros_delete :: "Macros \<Rightarrow> string \<Rightarrow> Macros \<times> bool" where
  "Macros_delete self name =
     (if map_of self name \<noteq> None then (AList.delete name self, True) else (self, False))"

definition Macros_definition_for :: "Macros \<Rightarrow> string \<Rightarrow> error + Macro" where
  "Macros_definition_for self name =
     (case map_of self name of
        None \<Rightarrow> Macro_init (Some name) None True
      | Some v \<Rightarrow> Macro_init (Some name) v False)"

text \<open>The loop of \<open>to_list\<close>, with the list \<open>out\<close> it appends to.\<close>

fun to_list_loop :: "Macros \<Rightarrow> MacroTuple list \<Rightarrow> error + MacroTuple list" where
  "to_list_loop [] out = Inr out"
| "to_list_loop ((k, v) # items) out =
     (case Macro_init (Some k) v False of
        Inl e \<Rightarrow> Inl e
      | Inr macro \<Rightarrow> to_list_loop items (out @ [Macro_to_tuple macro]))"

definition Macros_to_list :: "Macros \<Rightarrow> error + MacroTuple list" where
  "Macros_to_list self = to_list_loop self []"

text \<open>The generator \<open>Macro(k, v).to_string() for k, v in self.items()\<close>, consumed by join.\<close>

fun switch_forms :: "Macros \<Rightarrow> error + string list" where
  "switch_forms [] = Inr []"
| "switch_forms ((k, v) # items) =
     (case Macro_init (Some k) v False of
        Inl e \<Rightarrow> Inl e
      | Inr macro \<Rightarrow>
          (case switch_forms items of
             Inl e \<Rightarrow> Inl e
           | Inr rest \<Rightarrow> Inr (Macro_to_string macro # rest)))"

text \<open>
  \<open>Macros.to_string()\<close> reads the module-level \<open>TOKEN\<close>; the token is a parameter here, and
  \<open>Macros_to_string_default\<close> is the method under the value the module gives it.
\<close>

definition Macros_to_string :: "string \<Rightarrow> Macros \<Rightarrow> error + string" where
  "Macros_to_string token self =
     (case switch_forms self of
        Inl e \<Rightarrow> Inl e
      | Inr parts \<Rightarrow>
          (let stringified = py_strip (py_join token parts)
           in Inr (py_lstrip token @ stringified)))"

definition Macros_to_string_default :: "Macros \<Rightarrow> error + string" where
  "Macros_to_string_default self = Macros_to_string TOKEN self"

subsection \<open>Sequences of calls\<close>

text \<open>
  A caller builds a collection by calling \<open>define\<close>, \<open>undefine\<close>, \<open>add\<close> and \<open>delete\<close>
  on a \<open>Macros()\<close> that starts empty. \<open>Add\<close> carries the arguments of the constructor call that
  made the Macro it passes. A call that raises leaves the dict as it was: the constructor
  raises before \<open>add\<close> assigns.
\<close>

datatype operation =
    Define "string option" "string option" bool
  | Undefine "string option" "(string \<times> string option) list"
  | Add "string option" "string option" bool
  | Delete string

fun apply_operation :: "Macros \<Rightarrow> operation \<Rightarrow> Macros" where
  "apply_operation self (Define name defn undef) =
     (case Macros_define self name defn undef of Inl e \<Rightarrow> self | Inr r \<Rightarrow> fst r)"
| "apply_operation self (Undefine name kwargs) =
     (case Macros_undefine self name kwargs of Inl e \<Rightarrow> self | Inr r \<Rightarrow> fst r)"
| "apply_operation self (Add name defn undef) =
     (case Macro_init name defn undef of
        Inl e \<Rightarrow> self
      | Inr macro \<Rightarrow> fst (Macros_add self macro))"
| "apply_operation self (Delete name) = fst (Macros_delete self name)"

definition built_by :: "operation list \<Rightarrow> Macros" where
  "built_by ops = foldl apply_operation [] ops"

section \<open>Properties\<close>

subsection \<open>Evaluating the built-ins\<close>

lemma py_int_zero: "py_int ''0'' = Some 0"
  by (simp add: py_int_def py_nat_def int_space_def is_digit_def digit_value_def
      max_str_digits_def)

lemma py_int_one: "py_int ''1'' = Some 1"
  by (simp add: py_int_def py_nat_def int_space_def is_digit_def digit_value_def
      max_str_digits_def)

lemma is_string_value_None: "is_string_value None v = False"
  by (simp add: is_string_value_def)

lemma is_string_value_zero:
  "is_string_value (Some ''0'') 0" "\<not> is_string_value (Some ''0'') 1"
  by (simp_all add: is_string_value_def py_int_zero)

lemma is_string_value_one:
  "\<not> is_string_value (Some ''1'') 0" "is_string_value (Some ''1'') 1"
  by (simp_all add: is_string_value_def py_int_one)

lemma py_int_empty: "py_int [] = None"
  by (simp add: py_int_def)

lemmas py_eval = py_int_def py_nat_def int_space_def is_digit_def digit_value_def
  max_str_digits_def py_isspace_def py_strip_def py_lstrip_def

subsection \<open>The constructor\<close>

lemma Macro_init_valid:
  "name \<noteq> [] \<Longrightarrow> Macro_init (Some name) defn undef =
     Inr \<lparr>macro_name = name,
          macro_definition =
            (if is_string_value defn 0 \<or> is_string_value defn 1 then None else defn),
          macro_undefine = (is_string_value defn 0 \<or> undef)\<rparr>"
  by (simp add: Macro_init_def)

text \<open>
  C7. \<open>Macro("")\<close> and \<open>Macro(None)\<close> raise ValueError, whatever the other two arguments
  are: the constructor returns no Macro for an empty or absent name.
\<close>

theorem Macro_init_invalid_name:
  "Macro_init (Some []) defn undef = Inl (ValueError ''Macro() requires a valid name'') \<and>
   Macro_init None defn undef = Inl (ValueError ''Macro() requires a valid name'')"
  by (simp add: Macro_init_def)

text \<open>
  C3. For a non-empty name and either value of the flag, \<open>Macro(name, "0", undefine=flag)\<close>
  has \<open>undefine == True\<close> and \<open>definition is None\<close>.
\<close>

theorem Macro_init_zero_sentinel:
  "name \<noteq> [] \<Longrightarrow>
   Macro_init (Some name) (Some ''0'') flag =
     Inr \<lparr>macro_name = name, macro_definition = None, macro_undefine = True\<rparr>"
  by (simp add: Macro_init_valid is_string_value_zero)

theorem Macro_init_zero_sentinel_witness:
  "''DEBUG'' \<noteq> [] \<and>
   Macro_init (Some ''DEBUG'') (Some ''0'') False =
     Inr \<lparr>macro_name = ''DEBUG'', macro_definition = None, macro_undefine = True\<rparr>"
proof -
  have h: "''DEBUG'' \<noteq> []" by simp
  show ?thesis using h Macro_init_zero_sentinel [OF h, of False] by simp
qed

text \<open>
  C4. For a non-empty name, \<open>Macro(name, "1")\<close> with the default flag has
  \<open>definition is None\<close> and \<open>undefine == False\<close>.
\<close>

theorem Macro_init_one_sentinel:
  "name \<noteq> [] \<Longrightarrow>
   Macro_init (Some name) (Some ''1'') False =
     Inr \<lparr>macro_name = name, macro_definition = None, macro_undefine = False\<rparr>"
  by (simp add: Macro_init_valid is_string_value_one)

theorem Macro_init_one_sentinel_witness:
  "''NUMPY'' \<noteq> [] \<and>
   Macro_init (Some ''NUMPY'') (Some ''1'') False =
     Inr \<lparr>macro_name = ''NUMPY'', macro_definition = None, macro_undefine = False\<rparr>"
proof -
  have h: "''NUMPY'' \<noteq> []" by simp
  show ?thesis using h Macro_init_one_sentinel [OF h] by simp
qed

subsection \<open>Storing and reading back\<close>

lemma u8str_Some: "u8str (Some s) = s"
  by (simp add: u8str_def)

lemma Macros_define_valid:
  "name \<noteq> [] \<Longrightarrow> Macros_define self (Some name) defn undef =
     Inr (Macros_add self
       \<lparr>macro_name = name,
        macro_definition =
          (if is_string_value defn 0 \<or> is_string_value defn 1 then None else defn),
        macro_undefine = (is_string_value defn 0 \<or> undef)\<rparr>)"
  by (simp add: Macros_define_def Macro_init_valid)

lemma Macros_add_defined:
  "\<not> macro_undefine macro \<Longrightarrow>
   Macros_add self macro =
     (AList.update (macro_name macro) (py_or (macro_definition macro) (Some ''1'')) self, macro)"
  by (simp add: Macros_add_def Macro_bool_def STRING_ONE_def)

lemma Macros_add_undefined:
  "macro_undefine macro \<Longrightarrow>
   Macros_add self macro = (AList.update (macro_name macro) (Some ''0'') self, macro)"
  by (simp add: Macros_add_def Macro_bool_def STRING_ZERO_def)

text \<open>
  C2, as amended. For a non-empty name and a string \<open>X\<close> for which neither
  \<open>is_string_value(X, 0)\<close> nor \<open>is_string_value(X, 1)\<close> holds, the Macro returned by
  \<open>Macros().define(name, X)\<close> keeps \<open>X\<close> as its definition and its \<open>to_tuple()\<close> is
  \<open>(name, X)\<close>.
\<close>

theorem define_to_tuple_roundtrip:
  assumes "name \<noteq> []"
    and "\<not> is_string_value (Some X) 0" and "\<not> is_string_value (Some X) 1"
  shows "Macros_define [] (Some name) (Some X) False =
           Inr ([(name, py_or (Some X) (Some ''1''))],
                \<lparr>macro_name = name, macro_definition = Some X, macro_undefine = False\<rparr>) \<and>
         Macro_to_tuple
           \<lparr>macro_name = name, macro_definition = Some X, macro_undefine = False\<rparr> = (name, X)"
  using assms
  by (simp add: Macros_define_valid Macros_add_defined Macro_to_tuple_def u8str_Some)

theorem define_to_tuple_roundtrip_witness:
  "''VERSION'' \<noteq> [] \<and> \<not> is_string_value (Some ''1.2.3'') 0 \<and>
   \<not> is_string_value (Some ''1.2.3'') 1 \<and>
   Macros_define [] (Some ''VERSION'') (Some ''1.2.3'') False =
     Inr ([(''VERSION'', Some ''1.2.3'')],
          \<lparr>macro_name = ''VERSION'', macro_definition = Some ''1.2.3'',
           macro_undefine = False\<rparr>) \<and>
   Macro_to_tuple
     \<lparr>macro_name = ''VERSION'', macro_definition = Some ''1.2.3'', macro_undefine = False\<rparr> =
     (''VERSION'', ''1.2.3'')"
proof -
  have h1: "''VERSION'' \<noteq> []" by simp
  have h2: "\<not> is_string_value (Some ''1.2.3'') 0"
    by (simp add: is_string_value_def py_eval)
  have h3: "\<not> is_string_value (Some ''1.2.3'') 1"
    by (simp add: is_string_value_def py_eval)
  show ?thesis
    using h1 h2 h3 define_to_tuple_roundtrip [OF h1 h2 h3] by (simp add: py_or_def)
qed

text \<open>
  The claim as written asks only that \<open>X\<close> differs from "0" and "1". The string "00" does,
  and \<open>int\<close> reads it as zero: the returned Macro is an undef macro whose tuple is
  \<open>(name, "0")\<close>.
\<close>

theorem define_to_tuple_counterexample:
  "''00'' \<noteq> ''0'' \<and> ''00'' \<noteq> ''1'' \<and> ''A'' \<noteq> [] \<and>
   Macros_define [] (Some ''A'') (Some ''00'') False =
     Inr ([(''A'', Some ''0'')],
          \<lparr>macro_name = ''A'', macro_definition = None, macro_undefine = True\<rparr>) \<and>
   Macro_to_tuple \<lparr>macro_name = ''A'', macro_definition = None, macro_undefine = True\<rparr> =
     (''A'', ''0'') \<and>
   (''A'', ''0'') \<noteq> (''A'', ''00'')"
proof -
  have z: "is_string_value (Some ''00'') 0"
    by (simp add: is_string_value_def py_eval)
  show ?thesis
    by (simp add: Macros_define_valid z Macros_add_undefined Macro_to_tuple_def u8str_Some
        STRING_ZERO_def)
qed

text \<open>
  C5. For a non-empty name, \<open>m = Macros(); m.define(name)\<close> stores "1" under the name, and
  \<open>m.definition_for(name)\<close> is then the result of \<open>Macro(name, "1")\<close>, field by field.
\<close>

theorem define_then_definition_for:
  "name \<noteq> [] \<Longrightarrow>
   Macros_define [] (Some name) None False =
     Inr ([(name, Some ''1'')],
          \<lparr>macro_name = name, macro_definition = None, macro_undefine = False\<rparr>) \<and>
   Macros_definition_for [(name, Some ''1'')] name = Macro_init (Some name) (Some ''1'') False \<and>
   Macros_definition_for [(name, Some ''1'')] name =
     Inr \<lparr>macro_name = name, macro_definition = None, macro_undefine = False\<rparr>"
  by (simp add: Macros_define_valid is_string_value_None Macros_add_defined py_or_def
      Macros_definition_for_def Macro_init_valid is_string_value_one)

theorem define_then_definition_for_witness:
  "''NDEBUG'' \<noteq> [] \<and>
   Macros_define [] (Some ''NDEBUG'') None False =
     Inr ([(''NDEBUG'', Some ''1'')],
          \<lparr>macro_name = ''NDEBUG'', macro_definition = None, macro_undefine = False\<rparr>) \<and>
   Macros_definition_for [(''NDEBUG'', Some ''1'')] ''NDEBUG'' =
     Macro_init (Some ''NDEBUG'') (Some ''1'') False \<and>
   Macros_definition_for [(''NDEBUG'', Some ''1'')] ''NDEBUG'' =
     Inr \<lparr>macro_name = ''NDEBUG'', macro_definition = None, macro_undefine = False\<rparr>"
proof -
  have h: "''NDEBUG'' \<noteq> []" by simp
  from h define_then_definition_for [OF h] show ?thesis by (rule conjI)
qed

text \<open>
  C6. For a non-empty name and any keyword arguments, \<open>undefine(name, **kwargs)\<close> changes the
  dict and returns the Macro exactly as \<open>define(name, undefine=True)\<close> does: "0" is stored
  under the name, and the keyword arguments play no part.
\<close>

theorem undefine_is_define_undefine:
  "name \<noteq> [] \<Longrightarrow>
   Macros_undefine self (Some name) kwargs = Macros_define self (Some name) None True \<and>
   Macros_undefine self (Some name) kwargs =
     Inr (AList.update name (Some ''0'') self,
          \<lparr>macro_name = name, macro_definition = None, macro_undefine = True\<rparr>)"
  by (simp add: Macros_undefine_def Macros_define_def Macro_init_valid is_string_value_None
      Macros_add_undefined)

theorem undefine_is_define_undefine_witness:
  "''DEBUG'' \<noteq> [] \<and>
   Macros_undefine [(''DEBUG'', Some ''2'')] (Some ''DEBUG'') [(''definition'', Some ''7'')] =
     Macros_define [(''DEBUG'', Some ''2'')] (Some ''DEBUG'') None True \<and>
   Macros_undefine [(''DEBUG'', Some ''2'')] (Some ''DEBUG'') [(''definition'', Some ''7'')] =
     Inr ([(''DEBUG'', Some ''0'')],
          \<lparr>macro_name = ''DEBUG'', macro_definition = None, macro_undefine = True\<rparr>)"
proof -
  have h: "''DEBUG'' \<noteq> []" by simp
  have e: "AList.update ''DEBUG'' (Some ''0'') [(''DEBUG'', Some ''2'')] =
             [(''DEBUG'', Some ''0'')]"
    by simp
  from h undefine_is_define_undefine
      [OF h, of "[(''DEBUG'', Some ''2'')]" "[(''definition'', Some ''7'')]", unfolded e]
  show ?thesis by (rule conjI)
qed

text \<open>
  C10. For a non-empty name, \<open>Macros().define(name, "")\<close> stores "1" under the name, so
  \<open>to_list()\<close> is then \<open>[(name, "1")]\<close>, while the Macro the call returned has the
  definition "" and the tuple \<open>(name, "")\<close>.
\<close>

theorem define_empty_definition:
  "name \<noteq> [] \<Longrightarrow>
   Macros_define [] (Some name) (Some []) False =
     Inr ([(name, Some ''1'')],
          \<lparr>macro_name = name, macro_definition = Some [], macro_undefine = False\<rparr>) \<and>
   Macros_to_list [(name, Some ''1'')] = Inr [(name, ''1'')] \<and>
   Macro_to_tuple \<lparr>macro_name = name, macro_definition = Some [], macro_undefine = False\<rparr> =
     (name, [])"
  by (simp add: Macros_define_valid is_string_value_def py_int_empty Macros_add_defined
      py_or_def Macros_to_list_def Macro_init_valid py_int_one Macro_to_tuple_def u8str_def
      STRING_ONE_def)

theorem define_empty_definition_witness:
  "''NUMPY'' \<noteq> [] \<and>
   Macros_define [] (Some ''NUMPY'') (Some []) False =
     Inr ([(''NUMPY'', Some ''1'')],
          \<lparr>macro_name = ''NUMPY'', macro_definition = Some [], macro_undefine = False\<rparr>) \<and>
   Macros_to_list [(''NUMPY'', Some ''1'')] = Inr [(''NUMPY'', ''1'')] \<and>
   Macro_to_tuple
     \<lparr>macro_name = ''NUMPY'', macro_definition = Some [], macro_undefine = False\<rparr> =
     (''NUMPY'', [])"
proof -
  have h: "''NUMPY'' \<noteq> []" by simp
  show ?thesis using h define_empty_definition [OF h] by simp
qed

subsection \<open>Rendering\<close>

text \<open>
  C8. On an empty collection \<open>to_string()\<close> is the separator token with its leading
  whitespace stripped; with the token of the module, " -", that is "-".
\<close>

theorem to_string_empty:
  "Macros_to_string token [] = Inr (py_lstrip token) \<and>
   Macros_to_string_default [] = Inr ''-''"
  by (simp add: Macros_to_string_default_def Macros_to_string_def py_strip_def py_lstrip_def
      TOKEN_def py_isspace_def)

lemma scenario_values:
  "\<not> is_string_value (Some ''1.2.3'') 0" "\<not> is_string_value (Some ''1.2.3'') 1"
  by (simp_all add: is_string_value_def py_eval)

lemma scenario_switch_forms:
  "switch_forms [(''NDEBUG'', Some ''1''), (''VERSION'', Some ''1.2.3''), (''DEBUG'', Some ''0'')] =
     Inr [''DNDEBUG'', ''DVERSION=1.2.3'', ''UDEBUG'']"
  by (simp add: Macro_init_valid is_string_value_one is_string_value_zero scenario_values
      Macro_to_string_def u8str_Some)

lemma scenario_to_string:
  "Macros_to_string_default
     [(''NDEBUG'', Some ''1''), (''VERSION'', Some ''1.2.3''), (''DEBUG'', Some ''0'')] =
   Inr ''-DNDEBUG -DVERSION=1.2.3 -UDEBUG''"
  unfolding Macros_to_string_default_def Macros_to_string_def scenario_switch_forms
  by (simp add: TOKEN_def py_strip_def py_lstrip_def py_isspace_def)

lemma scenario_undefine:
  "Macros_undefine [(''NDEBUG'', Some ''1''), (''VERSION'', Some ''1.2.3'')] (Some ''DEBUG'') [] =
     Inr ([(''NDEBUG'', Some ''1''), (''VERSION'', Some ''1.2.3''), (''DEBUG'', Some ''0'')],
          \<lparr>macro_name = ''DEBUG'', macro_definition = None, macro_undefine = True\<rparr>)"
  by (simp add: Macros_undefine_def Macro_init_valid is_string_value_None Macros_add_undefined)

text \<open>
  C1, as amended. After \<open>m = Macros(); m.define('NDEBUG'); m.define('VERSION', '1.2.3');
  m.undefine('DEBUG')\<close> the call \<open>m.to_list()\<close> returns the three pairs in insertion order,
  and \<open>m.to_string()\<close> returns "-DNDEBUG -DVERSION=1.2.3 -UDEBUG": the switch forms joined by
  " -" and stripped, after the token with its leading whitespace stripped.
\<close>

theorem scenario_renderings:
  "Macros_define [] (Some ''NDEBUG'') None False =
     Inr ([(''NDEBUG'', Some ''1'')],
          \<lparr>macro_name = ''NDEBUG'', macro_definition = None, macro_undefine = False\<rparr>) \<and>
   Macros_define [(''NDEBUG'', Some ''1'')] (Some ''VERSION'') (Some ''1.2.3'') False =
     Inr ([(''NDEBUG'', Some ''1''), (''VERSION'', Some ''1.2.3'')],
          \<lparr>macro_name = ''VERSION'', macro_definition = Some ''1.2.3'',
           macro_undefine = False\<rparr>) \<and>
   Macros_undefine [(''NDEBUG'', Some ''1''), (''VERSION'', Some ''1.2.3'')] (Some ''DEBUG'') [] =
     Inr ([(''NDEBUG'', Some ''1''), (''VERSION'', Some ''1.2.3''), (''DEBUG'', Some ''0'')],
          \<lparr>macro_name = ''DEBUG'', macro_definition = None, macro_undefine = True\<rparr>) \<and>
   Macros_to_list [(''NDEBUG'', Some ''1''), (''VERSION'', Some ''1.2.3''), (''DEBUG'', Some ''0'')] =
     Inr [(''NDEBUG'', ''1''), (''VERSION'', ''1.2.3''), (''DEBUG'', ''0'')] \<and>
   Macros_to_string_default
       [(''NDEBUG'', Some ''1''), (''VERSION'', Some ''1.2.3''), (''DEBUG'', Some ''0'')] =
     Inr ''-DNDEBUG -DVERSION=1.2.3 -UDEBUG''"
proof -
  have build1: "Macros_define [] (Some ''NDEBUG'') None False =
     Inr ([(''NDEBUG'', Some ''1'')],
          \<lparr>macro_name = ''NDEBUG'', macro_definition = None, macro_undefine = False\<rparr>)"
    by (simp add: Macros_define_valid is_string_value_None Macros_add_defined py_or_def)
  have build2:
    "Macros_define [(''NDEBUG'', Some ''1'')] (Some ''VERSION'') (Some ''1.2.3'') False =
     Inr ([(''NDEBUG'', Some ''1''), (''VERSION'', Some ''1.2.3'')],
          \<lparr>macro_name = ''VERSION'', macro_definition = Some ''1.2.3'',
           macro_undefine = False\<rparr>)"
    by (simp add: Macros_define_valid scenario_values Macros_add_defined py_or_def)
  have lst:
    "Macros_to_list [(''NDEBUG'', Some ''1''), (''VERSION'', Some ''1.2.3''), (''DEBUG'', Some ''0'')] =
     Inr [(''NDEBUG'', ''1''), (''VERSION'', ''1.2.3''), (''DEBUG'', ''0'')]"
    by (simp add: Macros_to_list_def Macro_init_valid is_string_value_one is_string_value_zero
        scenario_values Macro_to_tuple_def u8str_Some STRING_ZERO_def STRING_ONE_def)
  from build1 build2 scenario_undefine lst scenario_to_string show ?thesis
    by (intro conjI)
qed

text \<open>
  The string of the claim as written lacks the hyphen that \<open>to_string\<close> puts in front.
\<close>

theorem scenario_to_string_counterexample:
  "Macros_undefine [(''NDEBUG'', Some ''1''), (''VERSION'', Some ''1.2.3'')] (Some ''DEBUG'') [] =
     Inr ([(''NDEBUG'', Some ''1''), (''VERSION'', Some ''1.2.3''), (''DEBUG'', Some ''0'')],
          \<lparr>macro_name = ''DEBUG'', macro_definition = None, macro_undefine = True\<rparr>) \<and>
   Macros_to_string_default
       [(''NDEBUG'', Some ''1''), (''VERSION'', Some ''1.2.3''), (''DEBUG'', Some ''0'')] \<noteq>
     Inr ''DNDEBUG -DVERSION=1.2.3 -UDEBUG''"
  by (simp add: scenario_undefine scenario_to_string)

subsection \<open>The stored values\<close>

lemma update_entries:
  "(k', v') \<in> set (AList.update k v al) \<Longrightarrow> (k', v') = (k, v) \<or> (k', v') \<in> set al"
  by (induction al) (auto split: if_splits)

lemma delete_entries: "(k', v') \<in> set (AList.delete k al) \<Longrightarrow> (k', v') \<in> set al"
  by (simp add: AList.delete_eq)

lemma py_or_one:
  "py_or d (Some ''1'') = Some s \<Longrightarrow> s \<noteq> [] \<and> (s = ''1'' \<or> d = Some s)"
  by (auto simp: py_or_def split: option.splits if_splits)

lemma py_or_one_Some: "\<exists>s. py_or d (Some ''1'') = Some s"
  by (simp add: py_or_def split: option.splits)

lemma add_entries:
  assumes "Macro_init name defn undef = Inr macro"
    and "(k, v) \<in> set (fst (Macros_add self macro))"
  shows "(k, v) \<in> set self \<or>
         (\<exists>s. v = Some s \<and> s \<noteq> [] \<and>
              (s = ''0'' \<or> s = ''1'' \<or>
               (\<not> is_string_value (Some s) 0 \<and> \<not> is_string_value (Some s) 1)))"
proof -
  from assms(1) obtain n where n: "name = Some n" "n \<noteq> []"
    by (auto simp: Macro_init_def split: option.splits if_splits)
  with assms(1) have m: "macro = \<lparr>macro_name = n,
      macro_definition =
        (if is_string_value defn 0 \<or> is_string_value defn 1 then None else defn),
      macro_undefine = (is_string_value defn 0 \<or> undef)\<rparr>"
    by (simp add: Macro_init_valid)
  show ?thesis
  proof (cases "macro_undefine macro")
    case True
    then have "Macros_add self macro = (AList.update (macro_name macro) (Some ''0'') self, macro)"
      by (rule Macros_add_undefined)
    with assms(2) have "(k, v) \<in> set (AList.update (macro_name macro) (Some ''0'') self)"
      by simp
    from update_entries [OF this] show ?thesis by auto
  next
    case False
    let ?d = "macro_definition macro"
    from False have
      "Macros_add self macro = (AList.update (macro_name macro) (py_or ?d (Some ''1'')) self, macro)"
      by (rule Macros_add_defined)
    with assms(2) have "(k, v) \<in> set (AList.update (macro_name macro) (py_or ?d (Some ''1'')) self)"
      by simp
    from update_entries [OF this]
    have "v = py_or ?d (Some ''1'') \<or> (k, v) \<in> set self" by auto
    then show ?thesis
    proof
      assume v: "v = py_or ?d (Some ''1'')"
      from py_or_one_Some [of ?d] obtain s where s: "py_or ?d (Some ''1'') = Some s" ..
      from py_or_one [OF s] have ne: "s \<noteq> []" and alt: "s = ''1'' \<or> ?d = Some s" by auto
      have "?d = Some s \<Longrightarrow>
          \<not> is_string_value (Some s) 0 \<and> \<not> is_string_value (Some s) 1"
        unfolding m by (auto split: if_splits)
      with ne alt v s show ?thesis by auto
    next
      assume "(k, v) \<in> set self"
      then show ?thesis ..
    qed
  qed
qed

lemma apply_operation_entries:
  assumes "(k, v) \<in> set (apply_operation self op)"
  shows "(k, v) \<in> set self \<or>
   (\<exists>s. v = Some s \<and> s \<noteq> [] \<and>
        (s = ''0'' \<or> s = ''1'' \<or>
         (\<not> is_string_value (Some s) 0 \<and> \<not> is_string_value (Some s) 1)))"
proof (cases op)
  case (Define name defn undef)
  show ?thesis
  proof (cases "Macro_init name defn undef")
    case (Inl e)
    with Define assms show ?thesis by (simp add: Macros_define_def)
  next
    case (Inr macro)
    with Define assms have "(k, v) \<in> set (fst (Macros_add self macro))"
      by (simp add: Macros_define_def)
    from add_entries [OF Inr this] show ?thesis .
  qed
next
  case (Undefine name kwargs)
  show ?thesis
  proof (cases "Macro_init name None True")
    case (Inl e)
    with Undefine assms show ?thesis by (simp add: Macros_undefine_def)
  next
    case (Inr macro)
    with Undefine assms have "(k, v) \<in> set (fst (Macros_add self macro))"
      by (simp add: Macros_undefine_def)
    from add_entries [OF Inr this] show ?thesis .
  qed
next
  case (Add name defn undef)
  show ?thesis
  proof (cases "Macro_init name defn undef")
    case (Inl e)
    with Add assms show ?thesis by simp
  next
    case (Inr macro)
    with Add assms have "(k, v) \<in> set (fst (Macros_add self macro))"
      by simp
    from add_entries [OF Inr this] show ?thesis .
  qed
next
  case (Delete name)
  with assms have "(k, v) \<in> set self"
    by (auto simp: Macros_delete_def split: if_splits dest: delete_entries)
  then show ?thesis ..
qed

lemma foldl_apply_operation_entries:
  "(k, v) \<in> set (foldl apply_operation self ops) \<Longrightarrow>
   (k, v) \<in> set self \<or>
   (\<exists>s. v = Some s \<and> s \<noteq> [] \<and>
        (s = ''0'' \<or> s = ''1'' \<or>
         (\<not> is_string_value (Some s) 0 \<and> \<not> is_string_value (Some s) 1)))"
proof (induction ops arbitrary: self)
  case Nil
  then show ?case by simp
next
  case (Cons op ops)
  from Cons.prems have "(k, v) \<in> set (foldl apply_operation (apply_operation self op) ops)"
    by simp
  from Cons.IH [OF this] show ?case
    using apply_operation_entries [of k v self op] by blast
qed

text \<open>
  C9. In a collection built from \<open>Macros()\<close> by calls of \<open>define\<close>, \<open>undefine\<close>,
  \<open>add\<close> and \<open>delete\<close>, every stored value is a str, is not empty, and is "0", "1" or a
  string that \<open>is_string_value\<close> takes neither for zero nor for one.
\<close>

theorem stored_values_invariant:
  "(k, v) \<in> set (built_by ops) \<Longrightarrow>
   \<exists>s. v = Some s \<and> s \<noteq> [] \<and>
       (s = ''0'' \<or> s = ''1'' \<or>
        (\<not> is_string_value (Some s) 0 \<and> \<not> is_string_value (Some s) 1))"
  using foldl_apply_operation_entries [of k v "[]" ops] by (simp add: built_by_def)

theorem stored_values_invariant_witness:
  "(''E'', Some ''1.5'') \<in>
     set (built_by [Define (Some ''B'') (Some []) False, Add (Some ''C'') (Some ''00'') False,
                    Delete ''B'', Undefine (Some ''D'') [(''definition'', Some ''3'')],
                    Define (Some ''E'') (Some ''1.5'') False]) \<and>
   (\<exists>s. Some ''1.5'' = Some s \<and> s \<noteq> [] \<and>
       (s = ''0'' \<or> s = ''1'' \<or>
        (\<not> is_string_value (Some s) 0 \<and> \<not> is_string_value (Some s) 1)))"
proof -
  have h: "(''E'', Some ''1.5'') \<in>
     set (built_by [Define (Some ''B'') (Some []) False, Add (Some ''C'') (Some ''00'') False,
                    Delete ''B'', Undefine (Some ''D'') [(''definition'', Some ''3'')],
                    Define (Some ''E'') (Some ''1.5'') False])"
    by (simp add: built_by_def Macros_define_def Macros_undefine_def Macro_init_def
        Macros_add_def Macros_delete_def Macro_bool_def is_string_value_def py_eval py_or_def
        STRING_ZERO_def STRING_ONE_def Let_def)
  from h stored_values_invariant [OF h] show ?thesis by (rule conjI)
qed

end
